theory Spec2Isabelle
  imports Main "HOL-Library.Sublist"
begin

section \<open>The parsed document (xml.etree.ElementTree)\<close>

text \<open>
  An element of the tree that \<open>etree.parse\<close> builds: its tag (a namespaced tag is
  written \<open>{uri}local\<close>), its attribute dictionary, its text \<open>elem.text\<close> (Python \<open>None\<close> when the
  element has no character data before its first child) and its children in document order.
  A Python string is a list of characters; the characters of the model are the code
  points below 256.
\<close>

datatype elem = Elem (tag: string) (attrib: "(string \<times> string) list")
  (elem_text: "string option") (children: "elem list")

text \<open>\<open>elem.get(key)\<close>: the attribute, or \<open>None\<close>.\<close>

definition get :: "elem \<Rightarrow> string \<Rightarrow> string option" where
  "get e key = map_of (attrib e) key"

text \<open>\<open>elem.iter()\<close>: the element itself, then its descendants, in document order.\<close>

fun iter :: "elem \<Rightarrow> elem list" where
  "iter (Elem t a x cs) = Elem t a x cs # concat (map iter cs)"

text \<open>\<open>elem.iter(tag)\<close>: the elements of \<open>iter\<close> with this tag.\<close>

definition iter_tag :: "string \<Rightarrow> elem \<Rightarrow> elem list" where
  "iter_tag tg e = filter (\<lambda>x. tag x = tg) (iter e)"

text \<open>
  \<open>elem.findall(".//tag")\<close>: the path selects \<open>elem.iter(tag)\<close> without \<open>elem\<close> itself,
  which is the first element of the traversal.
\<close>

definition findall_desc :: "string \<Rightarrow> elem \<Rightarrow> elem list" where
  "findall_desc tg e = filter (\<lambda>x. tag x = tg) (tl (iter e))"

text \<open>\<open>elem.find(".//tag")\<close>: the first element of \<open>findall\<close>, or \<open>None\<close>.\<close>

definition find_desc :: "string \<Rightarrow> elem \<Rightarrow> elem option" where
  "find_desc tg e = (case findall_desc tg e of [] \<Rightarrow> None | x # _ \<Rightarrow> Some x)"

text \<open>
  \<open>elem.findtext(tag)\<close> for a plain tag: the text of the first direct child with this
  tag, the empty string when that child has no text, \<open>None\<close> when there is no such child.
\<close>

definition findtext :: "string \<Rightarrow> elem \<Rightarrow> string option" where
  "findtext tg e =
     (case find (\<lambda>c. tag c = tg) (children e) of
        None \<Rightarrow> None
      | Some c \<Rightarrow> (case elem_text c of None \<Rightarrow> Some [] | Some t \<Rightarrow> Some t))"

section \<open>Python strings\<close>

text \<open>Truth value of an optional string: \<open>None\<close> and the empty string are false.\<close>

fun truthy :: "string option \<Rightarrow> bool" where
  "truthy None = False"
| "truthy (Some s) = (s \<noteq> [])"

text \<open>\<open>x or ""\<close> for an optional string \<open>x\<close>.\<close>

fun or_empty :: "string option \<Rightarrow> string" where
  "or_empty None = []"
| "or_empty (Some s) = s"

text \<open>\<open>str.isspace\<close> on one character, for the code points below 256.\<close>

definition isspace :: "char \<Rightarrow> bool" where
  "isspace c = (of_char c \<in> set [9, 10, 11, 12, 13, 28, 29, 30, 31, 32, 133, 160 :: nat])"

text \<open>\<open>str.strip()\<close>: leading and trailing whitespace removed.\<close>

definition strip :: "string \<Rightarrow> string" where
  "strip s = rev (dropWhile isspace (rev (dropWhile isspace s)))"

text \<open>\<open>str.lower()\<close>, character by character for the code points below 256.\<close>

definition lower_char :: "char \<Rightarrow> char" where
  "lower_char c =
     (let n = (of_char c :: nat)
      in if (65 \<le> n \<and> n \<le> 90) \<or> (192 \<le> n \<and> n \<le> 222 \<and> n \<noteq> 215)
         then char_of (n + 32) else c)"

definition lower :: "string \<Rightarrow> string" where
  "lower s = map lower_char s"

text \<open>\<open>needle in haystack\<close> for strings.\<close>

fun contains :: "string \<Rightarrow> string \<Rightarrow> bool" where
  "contains [] needle = (needle = [])"
| "contains (c # cs) needle = (prefix needle (c # cs) \<or> contains cs needle)"

section \<open>Severity\<close>

definition severity_map :: "(string \<times> string) list" where
  "severity_map =
     [(''0'', ''Info''), (''1'', ''Low''), (''2'', ''Medium''), (''3'', ''High''),
      (''4'', ''Critical'')]"

text \<open>\<open>severity_map.get(severity_code, severity_code if severity_code else "Unknown")\<close>\<close>

definition severity_text :: "string \<Rightarrow> string" where
  "severity_text severity_code =
     (case map_of severity_map severity_code of
        Some label \<Rightarrow> label
      | None \<Rightarrow> (if severity_code \<noteq> [] then severity_code else ''Unknown''))"

text \<open>\<open>item.get("severity") or ""\<close>, then the label.\<close>

definition item_severity :: "elem \<Rightarrow> string" where
  "item_severity item = severity_text (or_empty (get item ''severity''))"

section \<open>Namespace detection\<close>

text \<open>
  The exceptions that the code after the \<open>try\<close> block can raise: \<open>elem.tag[0]\<close> on an
  empty tag, and \<open>DictWriter.writerow\<close> on a row with a key outside the field names.
\<close>

datatype error = IndexError | ValueError

text \<open>
  The loop over \<open>root.iter()\<close>. The dictionary \<open>nsmap\<close> only ever holds the key
  \<open>"cm"\<close>; the model keeps the value stored under it, \<open>None\<close> while the key is absent.
  \<open>elem.tag[1:].partition("}")\<close> gives as \<open>uri\<close> what precedes the first \<open>}\<close>.
\<close>

fun detect_cm :: "elem list \<Rightarrow> string option \<Rightarrow> error + string option" where
  "detect_cm [] nsmap = Inr nsmap"
| "detect_cm (elem # rest) nsmap =
     (case tag elem of
        [] \<Rightarrow> Inl IndexError
      | c # after \<Rightarrow>
          if c = CHR ''{''
          then (let uri = takeWhile (\<lambda>x. x \<noteq> CHR ''}'') after
                in if contains uri ''nessus.org/cm'' \<or> contains uri ''compliance''
                   then detect_cm rest (Some uri)
                   else detect_cm rest nsmap)
          else detect_cm rest nsmap)"

text \<open>\<open>nsmap.setdefault("cm", "http://www.nessus.org/cm")\<close>, then \<open>nsmap["cm"]\<close>.\<close>

definition default_cm :: string where
  "default_cm = ''http://www.nessus.org/cm''"

definition resolve_cm :: "elem \<Rightarrow> error + string" where
  "resolve_cm root =
     (case detect_cm (iter root) None of
        Inl e \<Rightarrow> Inl e
      | Inr nsmap \<Rightarrow> Inr (case nsmap of None \<Rightarrow> default_cm | Some uri \<Rightarrow> uri))"

section \<open>Host address\<close>

text \<open>The loop over \<open>host.findall(".//tag")\<close> with its \<open>break\<close>.\<close>

fun host_ip_loop :: "elem list \<Rightarrow> string \<Rightarrow> string" where
  "host_ip_loop [] ip = ip"
| "host_ip_loop (t # ts) ip =
     (if get t ''name'' = Some ''host-ip'' \<and> truthy (elem_text t)
      then or_empty (elem_text t)
      else host_ip_loop ts ip)"

definition host_ip :: "elem \<Rightarrow> string" where
  "host_ip host =
     (let ip = or_empty (get host ''name'')
      in if ip = [] then host_ip_loop (findall_desc ''tag'' host) ip else ip)"

section \<open>Field extraction\<close>

text \<open>The f-string \<open>{{{cm}}}{tagname}\<close>.\<close>

definition qname :: "string \<Rightarrow> string \<Rightarrow> string" where
  "qname cm tagname = ''{'' @ cm @ ''}'' @ tagname"

text \<open>
  \<open>cm_text\<close>, the closure over \<open>item\<close> and \<open>cm\<close>. \<open>html.unescape\<close> belongs to the
  standard library and is a parameter of the model.
\<close>

definition cm_text :: "(string \<Rightarrow> string) \<Rightarrow> string \<Rightarrow> elem \<Rightarrow> string \<Rightarrow> string" where
  "cm_text unescape cm item tagname =
     (let text1 = findtext (qname cm tagname) item;
          text2 = (if text1 = None then findtext tagname item else text1);
          text3 = (if text2 = None
                   then (case find_desc (qname cm tagname) item of
                           None \<Rightarrow> None
                         | Some elem \<Rightarrow>
                             if truthy (elem_text elem) then elem_text elem else None)
                   else text2)
      in if truthy text3 then unescape (strip (or_empty text3)) else [])"

section \<open>Rows\<close>

type_synonym row = "(string \<times> string) list"

text \<open>\<open>a or b\<close> for two optional strings.\<close>

definition or_else :: "string option \<Rightarrow> string option \<Rightarrow> string option" where
  "or_else a b = (if truthy a then a else b)"

text \<open>The body of the loop over \<open>host.findall(".//ReportItem")\<close>: one row, a dictionary
  whose keys keep their insertion order.\<close>

definition primary_row :: "(string \<Rightarrow> string) \<Rightarrow> string \<Rightarrow> string \<Rightarrow> elem \<Rightarrow> row" where
  "primary_row unescape cm ip item =
     (let plugin_name = or_empty (or_else (get item ''pluginName'') (findtext ''plugin_name'' item));
          plugin_id = or_empty (get item ''pluginID'');
          plugin_family = or_empty (get item ''pluginFamily'');
          severity_code = or_empty (get item ''severity'');
          severity_txt = severity_text severity_code;
          port = or_empty (get item ''port'');
          protocol = or_empty (get item ''protocol'');
          svc_name = or_empty (get item ''svc_name'');
          risk_factor = strip (or_empty (findtext ''risk_factor'' item));
          compliance = (lower (strip (or_empty (findtext ''compliance'' item))) = ''true'')
      in [(''IP Address'', ip),
          (''Port'', port),
          (''Protocol'', protocol),
          (''Service'', svc_name),
          (''Plugin ID'', plugin_id),
          (''Plugin Name'', plugin_name),
          (''Plugin Family'', plugin_family),
          (''Severity'', severity_txt),
          (''Risk Factor'', risk_factor),
          (''Is Compliance Item'', if compliance then ''true'' else ''false''),
          (''Compliance Result'', cm_text unescape cm item ''compliance-result''),
          (''Compliance Check Name'', cm_text unescape cm item ''compliance-check-name''),
          (''Compliance Check ID'', cm_text unescape cm item ''compliance-check-id''),
          (''Compliance Policy Value'', cm_text unescape cm item ''compliance-policy-value''),
          (''Compliance Actual Value'', cm_text unescape cm item ''compliance-actual-value''),
          (''Compliance Solution'', cm_text unescape cm item ''compliance-solution''),
          (''Compliance Info'', cm_text unescape cm item ''compliance-info''),
          (''Compliance Reference'', cm_text unescape cm item ''compliance-reference''),
          (''Compliance Benchmark Name'', cm_text unescape cm item ''compliance-benchmark-name''),
          (''Compliance Benchmark Version'',
             cm_text unescape cm item ''compliance-benchmark-version''),
          (''Compliance Benchmark Profile'',
             cm_text unescape cm item ''compliance-benchmark-profile''),
          (''Compliance Full ID'', cm_text unescape cm item ''compliance-full-id''),
          (''Compliance Control ID'', cm_text unescape cm item ''compliance-control-id''),
          (''Compliance See Also'', cm_text unescape cm item ''compliance-see-also''),
          (''Compliance Source'', cm_text unescape cm item ''compliance-source''),
          (''Compliance Audit File'', cm_text unescape cm item ''compliance-audit-file''),
          (''Compliance Functional ID'', cm_text unescape cm item ''compliance-functional-id''),
          (''Compliance Informational ID'',
             cm_text unescape cm item ''compliance-informational-id'')])"

text \<open>The two nested loops over \<open>root.findall(".//ReportHost")\<close> and
  \<open>host.findall(".//ReportItem")\<close>.\<close>

definition primary_rows :: "(string \<Rightarrow> string) \<Rightarrow> string \<Rightarrow> elem \<Rightarrow> row list" where
  "primary_rows unescape cm root =
     concat (map (\<lambda>host. let ip = host_ip host
                          in map (primary_row unescape cm ip) (findall_desc ''ReportItem'' host))
                 (findall_desc ''ReportHost'' root))"

text \<open>The row of the flat fallback.\<close>

definition flat_row :: "string \<Rightarrow> elem \<Rightarrow> row" where
  "flat_row ip it =
     (let plugin_name = or_empty (or_else (get it ''pluginName'') (findtext ''plugin_name'' it));
          plugin_id = or_empty (get it ''pluginID'');
          severity_code = or_empty (get it ''severity'');
          severity_txt = severity_text severity_code
      in [(''IP Address'', ip),
          (''Port'', or_empty (get it ''port'')),
          (''Protocol'', or_empty (get it ''protocol'')),
          (''Service'', or_empty (get it ''svc_name'')),
          (''Plugin ID'', plugin_id),
          (''Plugin Name'', plugin_name),
          (''Plugin Family'', or_empty (get it ''pluginFamily'')),
          (''Severity'', severity_txt),
          (''Risk Factor'', strip (or_empty (findtext ''risk_factor'' it))),
          (''Is Compliance Item'', ''false''),
          (''Compliance Result'', []),
          (''Compliance Check Name'', []),
          (''Compliance Check ID'', []),
          (''Compliance Policy Value'', []),
          (''Compliance Actual Value'', []),
          (''Compliance Solution'', []),
          (''Compliance Info'', []),
          (''Compliance Reference'', []),
          (''Compliance Benchmark Name'', []),
          (''Compliance Benchmark Version'', []),
          (''Compliance Benchmark Profile'', []),
          (''Compliance Full ID'', []),
          (''Compliance Control ID'', []),
          (''Compliance See Also'', []),
          (''Compliance Source'', []),
          (''Compliance Audit File'', []),
          (''Compliance Functional ID'', []),
          (''Compliance Informational ID'', [])])"

text \<open>The fallback: \<open>ips\<close> from \<open>root.iter("ReportHost")\<close>, \<open>items\<close> from
  \<open>root.iter("ReportItem")\<close>, and the loop over \<open>enumerate(items)\<close>.\<close>

definition flat_rows :: "elem \<Rightarrow> row list" where
  "flat_rows root =
     (let ips = map (\<lambda>h. or_empty (get h ''name'')) (iter_tag ''ReportHost'' root);
          items = iter_tag ''ReportItem'' root
      in map (\<lambda>(idx, it). flat_row (if idx < length ips then ips ! idx else []) it)
             (enumerate 0 items))"

text \<open>What \<open>parse_nessus_file\<close> does with the root of a parsed tree.\<close>

definition rows_of_root :: "(string \<Rightarrow> string) \<Rightarrow> elem \<Rightarrow> error + row list" where
  "rows_of_root unescape root =
     (case resolve_cm root of
        Inl e \<Rightarrow> Inl e
      | Inr cm \<Rightarrow>
          (let rows = primary_rows unescape cm root
           in Inr (if rows = [] then flat_rows root else rows)))"

text \<open>
  \<open>parse_nessus_file\<close>. \<open>etree.parse\<close> is a parameter: for a path it gives the root of
  the tree, or the message of the exception it raised. The result is the lines printed on
  the standard error stream and the rows returned.
\<close>

definition parse_nessus_file ::
  "(string \<Rightarrow> string + elem) \<Rightarrow> (string \<Rightarrow> string) \<Rightarrow> string \<Rightarrow> string list \<times> (error + row list)"
  where
  "parse_nessus_file etree_parse unescape file_path =
     (case etree_parse file_path of
        Inl e \<Rightarrow> ([''[!] Failed to parse '' @ [CHR 0x27] @ file_path @ [CHR 0x27] @ '': '' @ e],
                  Inr [])
      | Inr root \<Rightarrow> ([], rows_of_root unescape root))"

section \<open>The batch\<close>

definition fieldnames :: "string list" where
  "fieldnames =
     [''IP Address'', ''Port'', ''Protocol'', ''Service'',
      ''Plugin ID'', ''Plugin Name'', ''Plugin Family'',
      ''Severity'', ''Risk Factor'',
      ''Is Compliance Item'', ''Compliance Result'',
      ''Compliance Check Name'', ''Compliance Check ID'',
      ''Compliance Policy Value'', ''Compliance Actual Value'',
      ''Compliance Solution'', ''Compliance Info'',
      ''Compliance Reference'', ''Compliance Benchmark Name'',
      ''Compliance Benchmark Version'', ''Compliance Benchmark Profile'',
      ''Compliance Full ID'', ''Compliance Control ID'',
      ''Compliance See Also'', ''Compliance Source'',
      ''Compliance Audit File'', ''Compliance Functional ID'',
      ''Compliance Informational ID'']"

text \<open>
  \<open>csv.DictWriter.writerow\<close> with the default \<open>extrasaction\<close> and \<open>restval\<close>: a key
  outside the field names raises \<open>ValueError\<close>, a field name without a key is written
  empty. The record is the list of cell values, its quoting left to the csv module.
\<close>

definition writerow :: "row \<Rightarrow> error + string list" where
  "writerow r =
     (if \<exists>k \<in> set (map fst r). k \<notin> set fieldnames then Inl ValueError
      else Inr (map (\<lambda>k. case map_of r k of None \<Rightarrow> [] | Some v \<Rightarrow> v) fieldnames))"

fun writerows :: "row list \<Rightarrow> error + string list list" where
  "writerows [] = Inr []"
| "writerows (r # rs) =
     (case writerow r of
        Inl e \<Rightarrow> Inl e
      | Inr cells \<Rightarrow> (case writerows rs of Inl e \<Rightarrow> Inl e | Inr more \<Rightarrow> Inr (cells # more)))"

text \<open>The state of \<open>main\<close> while it loops over the files: the lines on the standard
  error stream, the records written to the output file, and \<open>total_rows\<close>.\<close>

record run =
  diagnostics :: "string list"
  records :: "string list list"
  total_rows :: nat

fun main_loop ::
  "(string \<Rightarrow> string + elem) \<Rightarrow> (string \<Rightarrow> string) \<Rightarrow> string list \<Rightarrow> run \<Rightarrow> error + run"
  where
  "main_loop etree_parse unescape [] st = Inr st"
| "main_loop etree_parse unescape (path # rest) st =
     (case parse_nessus_file etree_parse unescape path of
        (diag, Inl e) \<Rightarrow> Inl e
      | (diag, Inr rows) \<Rightarrow>
          (case writerows rows of
             Inl e \<Rightarrow> Inl e
           | Inr recs \<Rightarrow>
               main_loop etree_parse unescape rest
                 \<lparr>diagnostics = diagnostics st @ diag,
                  records = records st @ recs,
                  total_rows = total_rows st + length rows\<rparr>))"

text \<open>
  \<open>main\<close> from \<open>writeheader\<close> on, for the list \<open>files\<close> that \<open>collect_nessus_inputs\<close>
  returned: the final state and the two numbers of the closing message, \<open>total_rows\<close>
  and \<open>len(files)\<close>.
\<close>

definition main :: "(string \<Rightarrow> string + elem) \<Rightarrow> (string \<Rightarrow> string) \<Rightarrow> string list
    \<Rightarrow> error + (run \<times> nat \<times> nat)" where
  "main etree_parse unescape files =
     (case main_loop etree_parse unescape files
             \<lparr>diagnostics = [], records = [fieldnames], total_rows = 0\<rparr> of
        Inl e \<Rightarrow> Inl e
      | Inr st \<Rightarrow> Inr (st, total_rows st, length files))"

section \<open>Notions of the specification\<close>

text \<open>The elements of a tree produced by the parser carry the name of an element as
  their tag, which has at least one character.\<close>

definition tags_nonempty :: "elem \<Rightarrow> bool" where
  "tags_nonempty root = list_all (\<lambda>e. tag e \<noteq> []) (iter root)"

text \<open>The URI of a namespaced tag; the URIs with a compliance marker; those of a
  list of elements, in the order of the elements.\<close>

definition tag_uri :: "string \<Rightarrow> string option" where
  "tag_uri t =
     (case t of
        [] \<Rightarrow> None
      | c # after \<Rightarrow>
          if c = CHR ''{'' then Some (takeWhile (\<lambda>x. x \<noteq> CHR ''}'') after) else None)"

definition is_cm_uri :: "string \<Rightarrow> bool" where
  "is_cm_uri uri = (contains uri ''nessus.org/cm'' \<or> contains uri ''compliance'')"

definition cm_uris :: "elem list \<Rightarrow> string list" where
  "cm_uris es = filter is_cm_uri (List.map_filter tag_uri (map tag es))"

text \<open>The host address as the specification words it: the name attribute, else the
  text of the first descendant \<open>tag\<close> element named \<open>host-ip\<close>, else empty.\<close>

definition claimed_host_address :: "elem \<Rightarrow> string" where
  "claimed_host_address host =
     (if truthy (get host ''name'') then or_empty (get host ''name'')
      else (case find (\<lambda>t. get t ''name'' = Some ''host-ip'') (findall_desc ''tag'' host) of
              None \<Rightarrow> []
            | Some t \<Rightarrow> or_empty (elem_text t)))"

text \<open>The three lookups of the field extractor as independent strategies, and the
  first of a list of attempts that succeeds.\<close>

fun first_success :: "'a option list \<Rightarrow> 'a option" where
  "first_success [] = None"
| "first_success (None # rest) = first_success rest"
| "first_success (Some x # rest) = Some x"

definition qualified_child :: "string \<Rightarrow> elem \<Rightarrow> string \<Rightarrow> string option" where
  "qualified_child cm item field =
     map_option (\<lambda>c. or_empty (elem_text c))
       (find (\<lambda>c. tag c = qname cm field) (children item))"

definition unqualified_child :: "elem \<Rightarrow> string \<Rightarrow> string option" where
  "unqualified_child item field =
     map_option (\<lambda>c. or_empty (elem_text c)) (find (\<lambda>c. tag c = field) (children item))"

definition qualified_descendant :: "string \<Rightarrow> elem \<Rightarrow> string \<Rightarrow> string option" where
  "qualified_descendant cm item field =
     (case find (\<lambda>d. tag d = qname cm field) (concat (map iter (children item))) of
        None \<Rightarrow> None
      | Some d \<Rightarrow> if truthy (elem_text d) then elem_text d else None)"

text \<open>The report items that lie under a report host, in document order: one walk of
  the tree that remembers whether a \<open>ReportHost\<close> has been entered.\<close>

fun items_under_hosts :: "bool \<Rightarrow> elem \<Rightarrow> elem list" where
  "items_under_hosts inside (Elem t a x cs) =
     (if inside \<and> t = ''ReportItem'' then [Elem t a x cs] else [])
     @ concat (map (items_under_hosts (inside \<or> t = ''ReportHost'')) cs)"

text \<open>No \<open>ReportHost\<close> lies inside another \<open>ReportHost\<close>.\<close>

definition hosts_not_nested :: "elem \<Rightarrow> bool" where
  "hosts_not_nested root =
     list_all (\<lambda>h. tag h = ''ReportHost'' \<longrightarrow> findall_desc ''ReportHost'' h = []) (iter root)"

text \<open>The pairs of host and item that the two nested loops of the primary path visit.\<close>

definition host_items :: "elem \<Rightarrow> (elem \<times> elem) list" where
  "host_items root =
     concat (map (\<lambda>host. map (Pair host) (findall_desc ''ReportItem'' host))
                 (findall_desc ''ReportHost'' root))"

text \<open>The rows that one file contributes to the batch, and the files on which
  \<open>etree.parse\<close> either fails or gives a tree with proper tags.\<close>

definition file_rows ::
  "(string \<Rightarrow> string + elem) \<Rightarrow> (string \<Rightarrow> string) \<Rightarrow> string \<Rightarrow> row list" where
  "file_rows etree_parse unescape path =
     (case snd (parse_nessus_file etree_parse unescape path) of
        Inl e \<Rightarrow> []
      | Inr rows \<Rightarrow> rows)"

definition parses_cleanly :: "(string \<Rightarrow> string + elem) \<Rightarrow> string \<Rightarrow> bool" where
  "parses_cleanly etree_parse path =
     (case etree_parse path of Inl e \<Rightarrow> True | Inr root \<Rightarrow> tags_nonempty root)"

text \<open>The output fields that hold an attribute of the item, with that attribute; and the
  eighteen compliance fields, with the tag that the field extractor looks up.\<close>

definition attribute_fields :: "(string \<times> string) list" where
  "attribute_fields =
     [(''Port'', ''port''), (''Protocol'', ''protocol''), (''Service'', ''svc_name''),
      (''Plugin ID'', ''pluginID''), (''Plugin Family'', ''pluginFamily'')]"

definition compliance_fields :: "(string \<times> string) list" where
  "compliance_fields =
     [(''Compliance Result'', ''compliance-result''),
      (''Compliance Check Name'', ''compliance-check-name''),
      (''Compliance Check ID'', ''compliance-check-id''),
      (''Compliance Policy Value'', ''compliance-policy-value''),
      (''Compliance Actual Value'', ''compliance-actual-value''),
      (''Compliance Solution'', ''compliance-solution''),
      (''Compliance Info'', ''compliance-info''),
      (''Compliance Reference'', ''compliance-reference''),
      (''Compliance Benchmark Name'', ''compliance-benchmark-name''),
      (''Compliance Benchmark Version'', ''compliance-benchmark-version''),
      (''Compliance Benchmark Profile'', ''compliance-benchmark-profile''),
      (''Compliance Full ID'', ''compliance-full-id''),
      (''Compliance Control ID'', ''compliance-control-id''),
      (''Compliance See Also'', ''compliance-see-also''),
      (''Compliance Source'', ''compliance-source''),
      (''Compliance Audit File'', ''compliance-audit-file''),
      (''Compliance Functional ID'', ''compliance-functional-id''),
      (''Compliance Informational ID'', ''compliance-informational-id'')]"

section \<open>Sample documents\<close>

text \<open>The end-to-end scenario: one host, one compliance item.\<close>

definition scenario_doc :: elem where
  "scenario_doc = Elem ''NessusClientData_v2'' [] None
     [Elem ''Report'' [(''name'', ''weekly'')] None
        [Elem ''ReportHost'' [(''name'', ''10.0.0.5'')] None
           [Elem ''ReportItem''
              [(''pluginID'', ''1000''), (''severity'', ''2''), (''port'', ''443''),
               (''protocol'', ''tcp'')] None
              [Elem ''compliance'' [] (Some ''true'') [],
               Elem ''{http://www.nessus.org/cm}compliance-result'' [] (Some ''FAILED'') [],
               Elem ''{http://www.nessus.org/cm}compliance-check-name'' []
                 (Some ''Ensure TLS enabled'') []]]]]"

text \<open>Two hosts with three items.\<close>

definition two_hosts_doc :: elem where
  "two_hosts_doc = Elem ''NessusClientData_v2'' [] None
     [Elem ''Report'' [] None
        [Elem ''ReportHost'' [(''name'', ''10.0.0.5'')] None
           [Elem ''ReportItem'' [(''pluginID'', ''1000'')] None [],
            Elem ''ReportItem'' [(''pluginID'', ''1001'')] None []],
         Elem ''ReportHost'' [(''name'', ''10.0.0.6'')] None
           [Elem ''ReportItem'' [(''pluginID'', ''1002'')] None []]]]"

text \<open>A host inside a host, and a document whose root is the host.\<close>

definition nested_hosts_doc :: elem where
  "nested_hosts_doc = Elem ''Report'' [] None
     [Elem ''ReportHost'' [(''name'', ''10.0.0.5'')] None
        [Elem ''ReportHost'' [(''name'', ''10.0.0.6'')] None
           [Elem ''ReportItem'' [(''pluginID'', ''1000'')] None []]]]"

definition root_host_doc :: elem where
  "root_host_doc = Elem ''ReportHost'' [(''name'', ''10.0.0.5'')] None
     [Elem ''ReportItem'' [(''pluginID'', ''1000'')] None []]"

text \<open>Items beside the hosts instead of under them.\<close>

definition flat_doc :: elem where
  "flat_doc = Elem ''Report'' [] None
     [Elem ''ReportHost'' [(''name'', ''10.0.0.5'')] None [],
      Elem ''ReportItem'' [(''pluginID'', ''1000''), (''severity'', ''3'')] None
        [Elem ''compliance'' [] (Some ''true'') [],
         Elem ''{http://www.nessus.org/cm}compliance-result'' [] (Some ''FAILED'') []],
      Elem ''ReportItem'' [(''pluginID'', ''1001'')] None []]"

text \<open>Three namespaces, two of them with a compliance marker.\<close>

definition ns_doc :: elem where
  "ns_doc = Elem ''Report'' [] None
     [Elem ''{http://other/ns}x'' [] None [],
      Elem ''{http://www.nessus.org/cm}a'' [] None [Elem ''{urn:compliance:v2}b'' [] None []]]"

text \<open>Hosts without a name attribute.\<close>

definition two_tags_host :: elem where
  "two_tags_host = Elem ''ReportHost'' [] None
     [Elem ''HostProperties'' [] None
        [Elem ''tag'' [(''name'', ''host-ip'')] None [],
         Elem ''tag'' [(''name'', ''host-ip'')] (Some ''10.0.0.1'') []]]"

definition tagged_host :: elem where
  "tagged_host = Elem ''ReportHost'' [] None
     [Elem ''HostProperties'' [] None
        [Elem ''tag'' [(''name'', ''host-fqdn'')] (Some ''db.example'') [],
         Elem ''tag'' [(''name'', ''host-ip'')] (Some ''10.0.0.7'') []]]"

text \<open>Items for the field extractor: a blank qualified child beside filled fallbacks,
  an unqualified child, a qualified tag one level down.\<close>

definition blank_item :: elem where
  "blank_item = Elem ''ReportItem'' [] None
     [Elem ''compliance-result'' [] (Some ''PASSED'') [],
      Elem ''wrapper'' [] None
        [Elem ''{http://www.nessus.org/cm}compliance-result'' [] (Some ''FAILED'') []],
      Elem ''{http://www.nessus.org/cm}compliance-result'' [] (Some ''  '') []]"

definition unprefixed_item :: elem where
  "unprefixed_item = Elem ''ReportItem'' [] None
     [Elem ''compliance-result'' [] (Some '' WARNING '') []]"

definition deep_item :: elem where
  "deep_item = Elem ''ReportItem'' [] None
     [Elem ''wrapper'' [] None
        [Elem ''{http://www.nessus.org/cm}compliance-result'' [] (Some ''FAILED'') []]]"

text \<open>Items with a \<open>compliance\<close> child.\<close>

definition compliance_item :: "string \<Rightarrow> elem" where
  "compliance_item t = Elem ''ReportItem'' [] None [Elem ''compliance'' [] (Some t) []]"

text \<open>A report item without attributes and children, under a host and outside any.\<close>

definition bare_item :: elem where
  "bare_item = Elem ''ReportItem'' [] None []"

definition bare_item_doc :: elem where
  "bare_item_doc = Elem ''Report'' [] None
     [Elem ''ReportHost'' [(''name'', ''10.0.0.5'')] None [bare_item]]"

definition bare_flat_doc :: elem where
  "bare_flat_doc = Elem ''Report'' [] None [bare_item]"

text \<open>A directory of three files, the second of which does not parse.\<close>

definition sample_parse :: "string \<Rightarrow> string + elem" where
  "sample_parse path =
     (if path = ''a.nessus'' then Inr two_hosts_doc
      else if path = ''b.nessus'' then Inr scenario_doc
      else Inl ''syntax error: line 1, column 0'')"

section \<open>Facts about the tree and the strings\<close>

lemma tl_iter: "tl (iter e) = concat (map iter (children e))"
  by (cases e) simp

lemma filter_tag_concat:
  "filter (\<lambda>x. tag x = tg) (concat (map iter cs)) = concat (map (iter_tag tg) cs)"
  by (induction cs) (auto simp: iter_tag_def)

lemma iter_tag_Elem:
  "iter_tag tg (Elem t a x cs) =
     (if t = tg then [Elem t a x cs] else []) @ concat (map (iter_tag tg) cs)"
  by (simp add: iter_tag_def filter_tag_concat)

lemma findall_desc_children: "findall_desc tg e = concat (map (iter_tag tg) (children e))"
  by (simp add: findall_desc_def tl_iter filter_tag_concat)

lemma find_filter_hd: "(case filter P xs of [] \<Rightarrow> None | x # _ \<Rightarrow> Some x) = find P xs"
  by (induction xs) auto

lemma find_desc_find: "find_desc tg e = find (\<lambda>d. tag d = tg) (concat (map iter (children e)))"
  by (simp add: find_desc_def findall_desc_def tl_iter find_filter_hd)

lemma findtext_child:
  "findtext tg e = map_option (\<lambda>c. or_empty (elem_text c)) (find (\<lambda>c. tag c = tg) (children e))"
  by (auto simp: findtext_def split: option.splits)

text \<open>\<open>contains\<close> is the substring test.\<close>

lemma contains_sublist: "contains h n \<longleftrightarrow> sublist n h"
  by (induction h) (auto simp: sublist_Cons_right)

text \<open>The characters that \<open>lower\<close> sends to the letters of \<open>true\<close>.\<close>

lemma lower_char_t: "lower_char c = CHR ''t'' \<longleftrightarrow> c = CHR ''t'' \<or> c = CHR ''T''"
proof (cases c)
  case (Char b0 b1 b2 b3 b4 b5 b6 b7)
  then show ?thesis
    by (cases b0; cases b1; cases b2; cases b3; cases b4; cases b5; cases b6; cases b7)
      (simp_all add: lower_char_def Let_def char_of_def bit_Suc_0_iff bit_0)
qed

lemma lower_char_r: "lower_char c = CHR ''r'' \<longleftrightarrow> c = CHR ''r'' \<or> c = CHR ''R''"
proof (cases c)
  case (Char b0 b1 b2 b3 b4 b5 b6 b7)
  then show ?thesis
    by (cases b0; cases b1; cases b2; cases b3; cases b4; cases b5; cases b6; cases b7)
      (simp_all add: lower_char_def Let_def char_of_def bit_Suc_0_iff bit_0)
qed

lemma lower_char_u: "lower_char c = CHR ''u'' \<longleftrightarrow> c = CHR ''u'' \<or> c = CHR ''U''"
proof (cases c)
  case (Char b0 b1 b2 b3 b4 b5 b6 b7)
  then show ?thesis
    by (cases b0; cases b1; cases b2; cases b3; cases b4; cases b5; cases b6; cases b7)
      (simp_all add: lower_char_def Let_def char_of_def bit_Suc_0_iff bit_0)
qed

lemma lower_char_e: "lower_char c = CHR ''e'' \<longleftrightarrow> c = CHR ''e'' \<or> c = CHR ''E''"
proof (cases c)
  case (Char b0 b1 b2 b3 b4 b5 b6 b7)
  then show ?thesis
    by (cases b0; cases b1; cases b2; cases b3; cases b4; cases b5; cases b6; cases b7)
      (simp_all add: lower_char_def Let_def char_of_def bit_Suc_0_iff bit_0)
qed

lemma map_eq_four:
  "map f s = [w, x, y, z] \<longleftrightarrow>
     (\<exists>a b c d. s = [a, b, c, d] \<and> f a = w \<and> f b = x \<and> f c = y \<and> f d = z)"
  by (auto simp: map_eq_Cons_conv)

lemma lower_true:
  "lower s = ''true'' \<longleftrightarrow>
     (\<exists>a b c d. s = [a, b, c, d]
        \<and> (a = CHR ''t'' \<or> a = CHR ''T'') \<and> (b = CHR ''r'' \<or> b = CHR ''R'')
        \<and> (c = CHR ''u'' \<or> c = CHR ''U'') \<and> (d = CHR ''e'' \<or> d = CHR ''E''))"
  unfolding lower_def map_eq_four lower_char_t lower_char_r lower_char_u lower_char_e ..

section \<open>Facts about the rows\<close>

lemma primary_row_keys: "map fst (primary_row unescape cm ip item) = fieldnames"
  by (simp add: primary_row_def fieldnames_def Let_def)

lemma flat_row_keys: "map fst (flat_row ip it) = fieldnames"
  by (simp add: flat_row_def fieldnames_def Let_def)

lemma fieldnames_length: "length fieldnames = 28"
  by (simp add: fieldnames_def)

lemma fieldnames_distinct: "distinct fieldnames"
  by (simp add: fieldnames_def)

lemma primary_rows_keys: "r \<in> set (primary_rows unescape cm root) \<Longrightarrow> map fst r = fieldnames"
  by (auto simp: primary_rows_def Let_def primary_row_keys)

lemma flat_rows_keys: "r \<in> set (flat_rows root) \<Longrightarrow> map fst r = fieldnames"
  by (auto simp: flat_rows_def Let_def flat_row_keys)

lemma rows_of_root_keys:
  "rows_of_root unescape root = Inr rows \<Longrightarrow> r \<in> set rows \<Longrightarrow> map fst r = fieldnames"
  by (auto simp: rows_of_root_def Let_def primary_rows_keys flat_rows_keys
      split: sum.splits if_splits)

lemma cm_text_miss:
  assumes "qualified_child cm item field = None" and "unqualified_child item field = None"
    and "qualified_descendant cm item field = None"
  shows "cm_text unescape cm item field = []"
proof -
  have q: "findtext (qname cm field) item = None"
    using assms(1) by (simp add: findtext_child qualified_child_def)
  have u: "findtext field item = None"
    using assms(2) by (simp add: findtext_child unqualified_child_def)
  have d: "(case find_desc (qname cm field) item of
              None \<Rightarrow> None
            | Some elem \<Rightarrow> if truthy (elem_text elem) then elem_text elem else None) = None"
    using assms(3) by (simp add: find_desc_find qualified_descendant_def)
  show ?thesis
    by (simp add: cm_text_def q u d)
qed

lemma primary_row_origin:
  "r \<in> set (primary_rows unescape cm root) \<Longrightarrow> \<exists>ip item. r = primary_row unescape cm ip item"
  by (auto simp: primary_rows_def Let_def)

lemma flat_rows_origin: "r \<in> set (flat_rows root) \<Longrightarrow> \<exists>ip item. r = flat_row ip item"
  by (auto simp: flat_rows_def Let_def)

lemma rows_of_root_origin:
  assumes "rows_of_root unescape root = Inr rows" and "r \<in> set rows"
  shows "(\<exists>cm ip item. r = primary_row unescape cm ip item) \<or> (\<exists>ip item. r = flat_row ip item)"
proof -
  from assms(1) obtain cm where
    rows: "rows = (if primary_rows unescape cm root = [] then flat_rows root
                   else primary_rows unescape cm root)"
    by (auto simp: rows_of_root_def Let_def split: sum.splits)
  show ?thesis
  proof (cases "primary_rows unescape cm root = []")
    case True
    with rows assms(2) show ?thesis
      using flat_rows_origin by auto
  next
    case False
    with rows assms(2) show ?thesis
      using primary_row_origin by metis
  qed
qed

lemma primary_row_attribute_fields:
  "\<forall>(k, a) \<in> set attribute_fields.
     map_of (primary_row unescape cm ip item) k = Some (or_empty (get item a))"
  by (simp add: attribute_fields_def primary_row_def Let_def)

lemma flat_row_attribute_fields:
  "\<forall>(k, a) \<in> set attribute_fields. map_of (flat_row ip item) k = Some (or_empty (get item a))"
  by (simp add: attribute_fields_def flat_row_def Let_def)

lemma primary_row_compliance_fields:
  "\<forall>(k, f) \<in> set compliance_fields.
     map_of (primary_row unescape cm ip item) k = Some (cm_text unescape cm item f)"
  by (simp add: compliance_fields_def primary_row_def Let_def)

lemma flat_row_compliance_fields:
  "\<forall>(k, f) \<in> set compliance_fields. map_of (flat_row ip item) k = Some []"
  by (simp add: compliance_fields_def flat_row_def Let_def)

lemma primary_row_other_fields:
  "map_of (primary_row unescape cm ip item) ''IP Address'' = Some ip"
  "map_of (primary_row unescape cm ip item) ''Plugin Name''
     = Some (or_empty (or_else (get item ''pluginName'') (findtext ''plugin_name'' item)))"
  "map_of (primary_row unescape cm ip item) ''Severity'' = Some (item_severity item)"
  "map_of (primary_row unescape cm ip item) ''Risk Factor''
     = Some (strip (or_empty (findtext ''risk_factor'' item)))"
  by (simp_all add: primary_row_def Let_def item_severity_def)

lemma flat_row_other_fields:
  "map_of (flat_row ip item) ''IP Address'' = Some ip"
  "map_of (flat_row ip item) ''Plugin Name''
     = Some (or_empty (or_else (get item ''pluginName'') (findtext ''plugin_name'' item)))"
  "map_of (flat_row ip item) ''Severity'' = Some (item_severity item)"
  "map_of (flat_row ip item) ''Risk Factor''
     = Some (strip (or_empty (findtext ''risk_factor'' item)))"
  "map_of (flat_row ip item) ''Is Compliance Item'' = Some ''false''"
  by (simp_all add: flat_row_def Let_def item_severity_def)

lemma primary_row_flag_absent:
  "findtext ''compliance'' item = None \<Longrightarrow>
   map_of (primary_row unescape cm ip item) ''Is Compliance Item'' = Some ''false''"
  by (simp add: primary_row_def Let_def strip_def lower_def)

lemma item_severity_absent: "get item ''severity'' = None \<Longrightarrow> item_severity item = ''Unknown''"
  by (simp add: item_severity_def severity_text_def severity_map_def)

lemma fieldnames_cover:
  "set fieldnames =
     {''IP Address'', ''Plugin Name'', ''Severity'', ''Risk Factor'', ''Is Compliance Item''}
     \<union> set (map fst attribute_fields) \<union> set (map fst compliance_fields)"
  by (simp add: fieldnames_def attribute_fields_def compliance_fields_def insert_commute)

lemma flat_rows_length: "length (flat_rows root) = length (iter_tag ''ReportItem'' root)"
  by (simp add: flat_rows_def Let_def)

lemma flat_rows_nth:
  "i < length (iter_tag ''ReportItem'' root) \<Longrightarrow>
   flat_rows root ! i =
     flat_row (if i < length (iter_tag ''ReportHost'' root)
               then or_empty (get (iter_tag ''ReportHost'' root ! i) ''name'') else [])
              (iter_tag ''ReportItem'' root ! i)"
  by (simp add: flat_rows_def Let_def nth_enumerate_eq)

lemma flat_row_fields:
  "flat_row ip it =
     zip fieldnames
       ([ip, or_empty (get it ''port''), or_empty (get it ''protocol''),
         or_empty (get it ''svc_name''), or_empty (get it ''pluginID''),
         or_empty (or_else (get it ''pluginName'') (findtext ''plugin_name'' it)),
         or_empty (get it ''pluginFamily''), item_severity it,
         strip (or_empty (findtext ''risk_factor'' it)), ''false''] @ replicate 18 [])"
  by (simp add: flat_row_def fieldnames_def Let_def item_severity_def numeral_eq_Suc)

section \<open>Facts about the namespace\<close>

lemma cm_uris_Cons:
  "cm_uris (e # es) =
     (case tag_uri (tag e) of
        None \<Rightarrow> cm_uris es
      | Some u \<Rightarrow> if is_cm_uri u then u # cm_uris es else cm_uris es)"
  by (simp add: cm_uris_def split: option.splits)

lemma detect_cm_last:
  "list_all (\<lambda>e. tag e \<noteq> []) es \<Longrightarrow>
   detect_cm es acc = Inr (if cm_uris es = [] then acc else Some (last (cm_uris es)))"
proof (induction es arbitrary: acc)
  case Nil
  then show ?case by (simp add: cm_uris_def)
next
  case (Cons e es)
  then obtain c after where t: "tag e = c # after"
    by (cases "tag e") auto
  from Cons have IH: "\<And>acc. detect_cm es acc =
      Inr (if cm_uris es = [] then acc else Some (last (cm_uris es)))"
    by simp
  show ?case
    by (simp add: t IH cm_uris_Cons tag_uri_def is_cm_uri_def Let_def)
qed

lemma detect_cm_empty_tag:
  "\<not> list_all (\<lambda>e. tag e \<noteq> []) es \<Longrightarrow> detect_cm es acc = Inl IndexError"
  by (induction es arbitrary: acc) (auto simp: Let_def split: list.splits)

lemma resolve_cm_total: "tags_nonempty root \<Longrightarrow> \<exists>cm. resolve_cm root = Inr cm"
  by (simp add: resolve_cm_def tags_nonempty_def detect_cm_last)

section \<open>Facts about the host address\<close>

lemma host_ip_loop_find:
  "host_ip_loop ts [] =
     (case find (\<lambda>t. get t ''name'' = Some ''host-ip'' \<and> truthy (elem_text t)) ts of
        None \<Rightarrow> []
      | Some t \<Rightarrow> or_empty (elem_text t))"
  by (induction ts) auto

section \<open>Facts about the primary traversal\<close>

lemma items_inside: "items_under_hosts True e = iter_tag ''ReportItem'' e"
proof (induction e)
  case (Elem t a x cs)
  have "map (items_under_hosts True) cs = map (iter_tag ''ReportItem'') cs"
    by (rule map_cong) (simp_all add: Elem)
  then have "concat (map (items_under_hosts True) cs) = concat (map (iter_tag ''ReportItem'') cs)"
    by (rule arg_cong)
  then show ?case
    by (simp add: iter_tag_Elem)
qed

lemma items_under_hosts_unfold:
  "items_under_hosts False e =
     concat (map (items_under_hosts (tag e = ''ReportHost'')) (children e))"
  by (cases e) simp

lemma hosts_not_nested_child:
  "hosts_not_nested e \<Longrightarrow> c \<in> set (children e) \<Longrightarrow> hosts_not_nested c"
  by (cases e) (auto simp: hosts_not_nested_def list_all_iff)

lemma concat_map_concat:
  "concat (map f (concat xss)) = concat (map (\<lambda>xs. concat (map f xs)) xss)"
  by (induction xss) auto

lemma items_of_hosts:
  "hosts_not_nested e \<Longrightarrow>
   concat (map (findall_desc ''ReportItem'') (iter_tag ''ReportHost'' e))
     = concat (map (items_under_hosts (tag e = ''ReportHost'')) (children e))"
proof (induction e)
  case (Elem t a x cs)
  let ?e = "Elem t a x cs"
  show ?case
  proof (cases "t = ''ReportHost''")
    case True
    from Elem.prems have "findall_desc ''ReportHost'' ?e = []"
      by (simp add: hosts_not_nested_def True)
    then have "iter_tag ''ReportHost'' ?e = [?e]"
      by (simp add: iter_tag_Elem findall_desc_children True)
    then show ?thesis
      by (simp add: findall_desc_children True items_inside)
  next
    case False
    have IH: "\<And>c. c \<in> set cs \<Longrightarrow>
        concat (map (findall_desc ''ReportItem'') (iter_tag ''ReportHost'' c))
          = items_under_hosts False c"
      using Elem.IH hosts_not_nested_child[OF Elem.prems]
      by (simp add: items_under_hosts_unfold)
    have "iter_tag ''ReportHost'' ?e = concat (map (iter_tag ''ReportHost'') cs)"
      by (simp add: iter_tag_Elem False)
    then have "concat (map (findall_desc ''ReportItem'') (iter_tag ''ReportHost'' ?e))
        = concat (map (\<lambda>c. concat (map (findall_desc ''ReportItem'')
                                       (iter_tag ''ReportHost'' c))) cs)"
      by (simp add: concat_map_concat o_def)
    also have "\<dots> = concat (map (items_under_hosts False) cs)"
      using IH by (simp cong: map_cong)
    finally show ?thesis by (simp add: False)
  qed
qed

lemma primary_rows_host_items:
  "primary_rows unescape cm root =
     map (\<lambda>(host, item). primary_row unescape cm (host_ip host) item) (host_items root)"
  by (simp add: primary_rows_def host_items_def map_concat o_def Let_def)

lemma snd_host_items:
  "map snd (host_items root) =
     concat (map (findall_desc ''ReportItem'') (findall_desc ''ReportHost'' root))"
  by (simp add: host_items_def map_concat o_def)

section \<open>Facts about the batch\<close>

lemma writerow_ok:
  assumes "map fst r = fieldnames"
  shows "writerow r = Inr (map snd r)"
proof -
  have d: "distinct (map fst r)"
    using assms fieldnames_distinct by simp
  have "map (\<lambda>k. case map_of r k of None \<Rightarrow> [] | Some v \<Rightarrow> v) (map fst r) = map snd r"
    using d by (auto simp: map_of_is_SomeI[OF d] intro!: map_cong)
  then show ?thesis
    using assms by (auto simp: writerow_def)
qed

lemma writerows_ok:
  "\<forall>r \<in> set rows. map fst r = fieldnames \<Longrightarrow> writerows rows = Inr (map (map snd) rows)"
  by (induction rows) (simp_all add: writerow_ok)

lemma parse_nessus_file_ok:
  assumes "parses_cleanly etree_parse path"
  shows "snd (parse_nessus_file etree_parse unescape path)
           = Inr (file_rows etree_parse unescape path)"
proof (cases "etree_parse path")
  case (Inl e)
  then show ?thesis by (simp add: parse_nessus_file_def file_rows_def)
next
  case (Inr root)
  with assms obtain cm where "resolve_cm root = Inr cm"
    using resolve_cm_total by (auto simp: parses_cleanly_def)
  then show ?thesis
    using Inr by (simp add: parse_nessus_file_def file_rows_def rows_of_root_def Let_def)
qed

lemma file_rows_keys:
  "r \<in> set (file_rows etree_parse unescape path) \<Longrightarrow> map fst r = fieldnames"
  by (auto simp: file_rows_def parse_nessus_file_def split: sum.splits
      dest: rows_of_root_keys[OF sym])

lemma main_loop_ok:
  "list_all (parses_cleanly etree_parse) files \<Longrightarrow>
   main_loop etree_parse unescape files st =
     Inr \<lparr>diagnostics = diagnostics st
             @ concat (map (\<lambda>p. fst (parse_nessus_file etree_parse unescape p)) files),
          records = records st
             @ map (map snd) (concat (map (file_rows etree_parse unescape) files)),
          total_rows = total_rows st
             + length (concat (map (file_rows etree_parse unescape) files))\<rparr>"
proof (induction files arbitrary: st)
  case Nil
  then show ?case by simp
next
  case (Cons p ps)
  obtain diag where pf: "parse_nessus_file etree_parse unescape p
      = (diag, Inr (file_rows etree_parse unescape p))"
    using parse_nessus_file_ok[of etree_parse p unescape] Cons.prems
    by (cases "parse_nessus_file etree_parse unescape p") auto
  have wr: "writerows (file_rows etree_parse unescape p)
      = Inr (map (map snd) (file_rows etree_parse unescape p))"
    by (rule writerows_ok) (simp add: file_rows_keys)
  from Cons.prems have "list_all (parses_cleanly etree_parse) ps"
    by simp
  note IH = Cons.IH[OF this]
  show ?case
    by (simp add: pf wr IH)
qed

text \<open>The values of the sample documents that the examples below build on.\<close>

lemma sample_resolve_cm:
  "resolve_cm scenario_doc = Inr default_cm" "resolve_cm two_hosts_doc = Inr default_cm"
  "resolve_cm flat_doc = Inr default_cm"
  by (simp_all add: resolve_cm_def scenario_doc_def two_hosts_doc_def flat_doc_def default_cm_def)

lemma sample_tags_nonempty: "tags_nonempty scenario_doc" "tags_nonempty two_hosts_doc"
  by (simp_all add: tags_nonempty_def scenario_doc_def two_hosts_doc_def)

lemma sample_primary_length:
  "length (primary_rows (\<lambda>s. s) default_cm two_hosts_doc) = 3"
  "length (primary_rows (\<lambda>s. s) default_cm scenario_doc) = 1"
  "primary_rows (\<lambda>s. s) default_cm flat_doc = []"
  by (simp_all add: primary_rows_def two_hosts_doc_def scenario_doc_def flat_doc_def
      findall_desc_def)

lemma sample_rows_of_root:
  "rows_of_root (\<lambda>s. s) two_hosts_doc = Inr (primary_rows (\<lambda>s. s) default_cm two_hosts_doc)"
  "rows_of_root (\<lambda>s. s) scenario_doc = Inr (primary_rows (\<lambda>s. s) default_cm scenario_doc)"
  "rows_of_root (\<lambda>s. s) flat_doc = Inr (flat_rows flat_doc)"
  using sample_primary_length
  by (auto simp: rows_of_root_def sample_resolve_cm Let_def)

section \<open>The claims\<close>

text \<open>
  C1, as amended. When the root of the document is not itself a \<open>ReportHost\<close> and no
  \<open>ReportHost\<close> lies inside another one, the primary path emits one row per
  \<open>ReportItem\<close> that lies under a \<open>ReportHost\<close>: the rows are assembled from the pairs of
  host and item that the loops visit, the items of these pairs are exactly the report
  items under hosts in document order, each once, and so there are as many rows as
  such items.
\<close>

theorem primary_rows_one_per_item:
  assumes "tag root \<noteq> ''ReportHost''" and "hosts_not_nested root"
  shows "primary_rows unescape cm root =
           map (\<lambda>(host, item). primary_row unescape cm (host_ip host) item) (host_items root)
       \<and> map snd (host_items root) = items_under_hosts False root
       \<and> length (primary_rows unescape cm root) = length (items_under_hosts False root)"
proof -
  have "concat (map (findall_desc ''ReportItem'') (findall_desc ''ReportHost'' root))
      = concat (map (\<lambda>c. concat (map (findall_desc ''ReportItem'') (iter_tag ''ReportHost'' c)))
                 (children root))"
    by (simp add: findall_desc_children[of "''ReportHost''"] concat_map_concat o_def)
  also have "\<dots> = concat (map (items_under_hosts False) (children root))"
    using items_of_hosts hosts_not_nested_child[OF assms(2)]
    by (simp add: items_under_hosts_unfold cong: map_cong)
  also have "\<dots> = items_under_hosts False root"
    using assms(1) by (simp add: items_under_hosts_unfold[of root])
  finally have s: "map snd (host_items root) = items_under_hosts False root"
    by (simp add: snd_host_items)
  have "length (primary_rows unescape cm root) = length (map snd (host_items root))"
    by (simp add: primary_rows_host_items)
  with s show ?thesis
    by (simp add: primary_rows_host_items)
qed

theorem primary_rows_one_per_item_witness:
  "tag two_hosts_doc \<noteq> ''ReportHost'' \<and> hosts_not_nested two_hosts_doc
   \<and> length (primary_rows (\<lambda>s. s) default_cm two_hosts_doc) = 3
   \<and> map (\<lambda>i. get i ''pluginID'') (items_under_hosts False two_hosts_doc)
       = [Some ''1000'', Some ''1001'', Some ''1002'']
   \<and> map (\<lambda>r. map_of r ''Plugin ID'') (primary_rows (\<lambda>s. s) default_cm two_hosts_doc)
       = [Some ''1000'', Some ''1001'', Some ''1002'']"
  using primary_rows_one_per_item[of two_hosts_doc "\<lambda>s. s" default_cm]
  by (simp add: two_hosts_doc_def hosts_not_nested_def findall_desc_def get_def host_items_def
      primary_row_def Let_def)

text \<open>
  C1 as stated fails: with a host inside a host the one report item of the document
  gives two rows, and with the host as the root of the document its item gives none.
\<close>

theorem primary_rows_count_counterexample:
  "length (items_under_hosts False nested_hosts_doc) = 1
   \<and> length (primary_rows (\<lambda>s. s) default_cm nested_hosts_doc) = 2
   \<and> length (items_under_hosts False root_host_doc) = 1
   \<and> length (primary_rows (\<lambda>s. s) default_cm root_host_doc) = 0"
  by (simp add: nested_hosts_doc_def root_host_doc_def primary_rows_def findall_desc_def)

text \<open>
  C2, as amended. Every row that \<open>parse_nessus_file\<close> returns, from the primary path or
  from the flat fallback, has the 28 field names of \<open>main\<close> as its keys, each once and in
  that order, so that no key is missing, and its values are strings. The row is the one
  that the primary path or the fallback assembles for some item, and in such a row a
  datum that the item does not have is the empty string: an attribute that is absent,
  the plugin name when both of its sources are absent, the risk factor without its
  child, a compliance field for which all three lookups miss, and every compliance field
  of a fallback row. The two derived fields are the exception: without a severity
  attribute the severity is \<open>Unknown\<close>, and without a \<open>compliance\<close> child, as in every
  fallback row, the compliance flag is \<open>false\<close>. These fields and the address are all
  the fields there are.
\<close>

theorem rows_have_fieldnames:
  assumes "snd (parse_nessus_file etree_parse unescape file_path) = Inr rows" and "r \<in> set rows"
  shows "map fst r = fieldnames \<and> length r = 28 \<and> distinct (map fst r)
       \<and> (\<forall>k \<in> set fieldnames. \<exists>v. map_of r k = Some v)
       \<and> ((\<exists>cm ip item. r = primary_row unescape cm ip item) \<or> (\<exists>ip item. r = flat_row ip item))
       \<and> (\<forall>(k, a) \<in> set attribute_fields.
            get item a = None \<longrightarrow>
              map_of (primary_row unescape cm ip item) k = Some []
              \<and> map_of (flat_row ip item) k = Some [])
       \<and> (get item ''pluginName'' = None \<and> findtext ''plugin_name'' item = None \<longrightarrow>
            map_of (primary_row unescape cm ip item) ''Plugin Name'' = Some []
            \<and> map_of (flat_row ip item) ''Plugin Name'' = Some [])
       \<and> (findtext ''risk_factor'' item = None \<longrightarrow>
            map_of (primary_row unescape cm ip item) ''Risk Factor'' = Some []
            \<and> map_of (flat_row ip item) ''Risk Factor'' = Some [])
       \<and> (\<forall>(k, f) \<in> set compliance_fields.
            (qualified_child cm item f = None \<and> unqualified_child item f = None
               \<and> qualified_descendant cm item f = None \<longrightarrow>
                 map_of (primary_row unescape cm ip item) k = Some [])
            \<and> map_of (flat_row ip item) k = Some [])
       \<and> (get item ''severity'' = None \<longrightarrow>
            map_of (primary_row unescape cm ip item) ''Severity'' = Some ''Unknown''
            \<and> map_of (flat_row ip item) ''Severity'' = Some ''Unknown'')
       \<and> (findtext ''compliance'' item = None \<longrightarrow>
            map_of (primary_row unescape cm ip item) ''Is Compliance Item'' = Some ''false'')
       \<and> map_of (flat_row ip item) ''Is Compliance Item'' = Some ''false''
       \<and> set fieldnames =
            {''IP Address'', ''Plugin Name'', ''Severity'', ''Risk Factor'', ''Is Compliance Item''}
            \<union> set (map fst attribute_fields) \<union> set (map fst compliance_fields)"
proof -
  have k: "map fst r = fieldnames"
    using assms by (auto simp: parse_nessus_file_def rows_of_root_keys split: sum.splits)
  then have len: "length r = 28"
    using fieldnames_length by (metis length_map)
  have dist: "distinct (map fst r)"
    using k fieldnames_distinct by simp
  have dom: "\<forall>k \<in> set fieldnames. \<exists>v. map_of r k = Some v"
    using k by (metis map_of_eq_None_iff not_Some_eq set_map)
  have origin: "(\<exists>cm ip item. r = primary_row unescape cm ip item)
      \<or> (\<exists>ip item. r = flat_row ip item)"
    using assms
    by (auto simp: parse_nessus_file_def split: sum.splits dest: rows_of_root_origin)
  have attrs: "\<forall>(k, a) \<in> set attribute_fields.
      get item a = None \<longrightarrow>
        map_of (primary_row unescape cm ip item) k = Some []
        \<and> map_of (flat_row ip item) k = Some []"
    using primary_row_attribute_fields[of unescape cm ip item]
      flat_row_attribute_fields[of ip item]
    by (auto split: prod.splits)
  have name: "get item ''pluginName'' = None \<and> findtext ''plugin_name'' item = None \<longrightarrow>
      map_of (primary_row unescape cm ip item) ''Plugin Name'' = Some []
      \<and> map_of (flat_row ip item) ''Plugin Name'' = Some []"
    by (simp add: primary_row_other_fields flat_row_other_fields or_else_def)
  have risk: "findtext ''risk_factor'' item = None \<longrightarrow>
      map_of (primary_row unescape cm ip item) ''Risk Factor'' = Some []
      \<and> map_of (flat_row ip item) ''Risk Factor'' = Some []"
    by (simp add: primary_row_other_fields flat_row_other_fields strip_def)
  have comp: "\<forall>(k, f) \<in> set compliance_fields.
      (qualified_child cm item f = None \<and> unqualified_child item f = None
         \<and> qualified_descendant cm item f = None \<longrightarrow>
           map_of (primary_row unescape cm ip item) k = Some [])
      \<and> map_of (flat_row ip item) k = Some []"
    using primary_row_compliance_fields[of unescape cm ip item]
      flat_row_compliance_fields[of ip item]
    by (auto split: prod.splits simp: cm_text_miss)
  have sev: "get item ''severity'' = None \<longrightarrow>
      map_of (primary_row unescape cm ip item) ''Severity'' = Some ''Unknown''
      \<and> map_of (flat_row ip item) ''Severity'' = Some ''Unknown''"
    by (simp add: primary_row_other_fields flat_row_other_fields item_severity_absent)
  have flag: "findtext ''compliance'' item = None \<longrightarrow>
      map_of (primary_row unescape cm ip item) ''Is Compliance Item'' = Some ''false''"
    by (simp add: primary_row_flag_absent)
  have flat_flag: "map_of (flat_row ip item) ''Is Compliance Item'' = Some ''false''"
    by (simp add: flat_row_other_fields)
  from k len dist dom origin attrs name risk comp sev flag flat_flag fieldnames_cover
  show ?thesis
    by (intro conjI)
qed

theorem rows_have_fieldnames_witness:
  "snd (parse_nessus_file sample_parse (\<lambda>s. s) ''b.nessus'')
     = Inr (primary_rows (\<lambda>s. s) default_cm scenario_doc)
   \<and> hd (primary_rows (\<lambda>s. s) default_cm scenario_doc)
       \<in> set (primary_rows (\<lambda>s. s) default_cm scenario_doc)
   \<and> map fst (hd (primary_rows (\<lambda>s. s) default_cm scenario_doc)) = fieldnames
   \<and> length (hd (primary_rows (\<lambda>s. s) default_cm scenario_doc)) = 28
   \<and> (''Service'', ''svc_name'') \<in> set attribute_fields
   \<and> get (Elem ''ReportItem'' [(''port'', ''443''), (''protocol'', ''tcp'')] None []) ''svc_name''
       = None
   \<and> map_of (primary_row (\<lambda>s. s) default_cm ''10.0.0.5''
               (Elem ''ReportItem'' [(''port'', ''443''), (''protocol'', ''tcp'')] None []))
        ''Service'' = Some []
   \<and> map_of (flat_row ''10.0.0.5''
               (Elem ''ReportItem'' [(''port'', ''443''), (''protocol'', ''tcp'')] None []))
        ''Service'' = Some []"
proof -
  have rows: "primary_rows (\<lambda>s. s) default_cm scenario_doc \<noteq> []"
    using sample_primary_length(2) by auto
  have p: "snd (parse_nessus_file sample_parse (\<lambda>s. s) ''b.nessus'')
      = Inr (primary_rows (\<lambda>s. s) default_cm scenario_doc)"
    by (simp add: parse_nessus_file_def sample_parse_def sample_rows_of_root)
  have m: "hd (primary_rows (\<lambda>s. s) default_cm scenario_doc)
      \<in> set (primary_rows (\<lambda>s. s) default_cm scenario_doc)"
    using rows by simp
  have a: "(''Service'', ''svc_name'') \<in> set attribute_fields"
    by (simp add: attribute_fields_def)
  have g: "get (Elem ''ReportItem'' [(''port'', ''443''), (''protocol'', ''tcp'')] None [])
      ''svc_name'' = None"
    by (simp add: get_def)
  note t = rows_have_fieldnames[OF p m,
      where item = "Elem ''ReportItem'' [(''port'', ''443''), (''protocol'', ''tcp'')] None []"
        and cm = default_cm and ip = "''10.0.0.5''"]
  from t have all: "\<forall>(k, a) \<in> set attribute_fields.
      get (Elem ''ReportItem'' [(''port'', ''443''), (''protocol'', ''tcp'')] None []) a = None \<longrightarrow>
        map_of (primary_row (\<lambda>s. s) default_cm ''10.0.0.5''
                 (Elem ''ReportItem'' [(''port'', ''443''), (''protocol'', ''tcp'')] None [])) k
          = Some []
        \<and> map_of (flat_row ''10.0.0.5''
                 (Elem ''ReportItem'' [(''port'', ''443''), (''protocol'', ''tcp'')] None [])) k
          = Some []"
    by (elim conjE)
  from bspec[OF all a] g have s: "map_of (primary_row (\<lambda>s. s) default_cm ''10.0.0.5''
                 (Elem ''ReportItem'' [(''port'', ''443''), (''protocol'', ''tcp'')] None []))
          ''Service'' = Some []
        \<and> map_of (flat_row ''10.0.0.5''
                 (Elem ''ReportItem'' [(''port'', ''443''), (''protocol'', ''tcp'')] None []))
          ''Service'' = Some []"
    by simp
  from t have k: "map fst (hd (primary_rows (\<lambda>s. s) default_cm scenario_doc)) = fieldnames"
    by (elim conjE)
  from t have l: "length (hd (primary_rows (\<lambda>s. s) default_cm scenario_doc)) = 28"
    by (elim conjE)
  from p m k l a g s show ?thesis
    by (intro conjI) (elim conjE, assumption)+
qed

text \<open>
  C2 as stated fails: a report item without a severity attribute and without a
  \<open>compliance\<close> child has the severity \<open>Unknown\<close> and the compliance flag \<open>false\<close> in
  its row, not the empty string, on the primary path and in the fallback.
\<close>

theorem rows_absent_data_counterexample:
  "get bare_item ''severity'' = None \<and> findtext ''compliance'' bare_item = None
   \<and> rows_of_root (\<lambda>s. s) bare_item_doc
       = Inr [primary_row (\<lambda>s. s) default_cm ''10.0.0.5'' bare_item]
   \<and> map_of (primary_row (\<lambda>s. s) default_cm ''10.0.0.5'' bare_item) ''Severity''
       = Some ''Unknown''
   \<and> map_of (primary_row (\<lambda>s. s) default_cm ''10.0.0.5'' bare_item) ''Is Compliance Item''
       = Some ''false''
   \<and> rows_of_root (\<lambda>s. s) bare_flat_doc = Inr [flat_row [] bare_item]
   \<and> map_of (flat_row [] bare_item) ''Severity'' = Some ''Unknown''
   \<and> map_of (flat_row [] bare_item) ''Is Compliance Item'' = Some ''false''"
proof -
  have c: "resolve_cm bare_item_doc = Inr default_cm" "resolve_cm bare_flat_doc = Inr default_cm"
    by (simp_all add: resolve_cm_def bare_item_doc_def bare_flat_doc_def bare_item_def)
  have p: "primary_rows (\<lambda>s. s) default_cm bare_item_doc
      = [primary_row (\<lambda>s. s) default_cm ''10.0.0.5'' bare_item]"
    by (simp add: primary_rows_def bare_item_doc_def bare_item_def findall_desc_def host_ip_def
        get_def)
  have pne: "primary_row (\<lambda>s. s) default_cm ''10.0.0.5'' bare_item \<noteq> []"
    by (simp add: primary_row_def Let_def)
  have q: "primary_rows (\<lambda>s. s) default_cm bare_flat_doc = []"
    by (simp add: primary_rows_def bare_flat_doc_def bare_item_def findall_desc_def)
  have f: "flat_rows bare_flat_doc = [flat_row [] bare_item]"
    by (simp add: flat_rows_def bare_flat_doc_def bare_item_def iter_tag_def enumerate_eq_zip)
  have r1: "rows_of_root (\<lambda>s. s) bare_item_doc
       = Inr [primary_row (\<lambda>s. s) default_cm ''10.0.0.5'' bare_item]"
    by (simp add: rows_of_root_def c p)
  have r2: "rows_of_root (\<lambda>s. s) bare_flat_doc = Inr [flat_row [] bare_item]"
    by (simp add: rows_of_root_def c q f)
  have g: "get bare_item ''severity'' = None" "findtext ''compliance'' bare_item = None"
    by (simp_all add: bare_item_def get_def findtext_def)
  have v: "map_of (primary_row (\<lambda>s. s) default_cm ''10.0.0.5'' bare_item) ''Severity''
       = Some ''Unknown''"
    "map_of (primary_row (\<lambda>s. s) default_cm ''10.0.0.5'' bare_item) ''Is Compliance Item''
       = Some ''false''"
    "map_of (flat_row [] bare_item) ''Severity'' = Some ''Unknown''"
    "map_of (flat_row [] bare_item) ''Is Compliance Item'' = Some ''false''"
    using g
    by (simp_all add: primary_row_other_fields flat_row_other_fields primary_row_flag_absent
        item_severity_absent)
  from g r1 r2 v show ?thesis
    by (intro conjI)
qed

text \<open>
  C3. For every report item and field name the extractor makes three lookups in this
  order and takes the first that succeeds: the namespace-qualified direct child, the
  direct child with the bare field name, the first namespace-qualified tag among the
  descendants (which counts only when it has text). When none succeeds the result is
  the empty string, as it is for an empty text; a text that is not empty is trimmed and
  then passed to \<open>html.unescape\<close>.
\<close>

theorem cm_text_three_tiers:
  "cm_text unescape cm item field =
     (case first_success [qualified_child cm item field, unqualified_child item field,
                          qualified_descendant cm item field] of
        None \<Rightarrow> []
      | Some t \<Rightarrow> if t = [] then [] else unescape (strip t))"
proof -
  have q: "findtext (qname cm field) item = qualified_child cm item field"
    by (simp add: findtext_child qualified_child_def)
  have u: "findtext field item = unqualified_child item field"
    by (simp add: findtext_child unqualified_child_def)
  have d: "(case find_desc (qname cm field) item of
              None \<Rightarrow> None
            | Some elem \<Rightarrow> if truthy (elem_text elem) then elem_text elem else None)
           = qualified_descendant cm item field"
    by (simp add: find_desc_find qualified_descendant_def)
  show ?thesis
  proof (cases "qualified_child cm item field")
    case (Some t)
    then show ?thesis by (simp add: cm_text_def q)
  next
    case None
    note n1 = this
    show ?thesis
    proof (cases "unqualified_child item field")
      case (Some t)
      then show ?thesis by (simp add: cm_text_def q u n1)
    next
      case None
      then show ?thesis
        by (cases "qualified_descendant cm item field") (simp_all add: cm_text_def q u d n1)
    qed
  qed
qed

theorem cm_text_three_tiers_witness:
  "cm_text (\<lambda>s. s) default_cm unprefixed_item ''compliance-result'' = ''WARNING''
   \<and> cm_text (\<lambda>s. s) default_cm deep_item ''compliance-result'' = ''FAILED''
   \<and> cm_text (\<lambda>s. s) default_cm deep_item ''compliance-info'' = []"
  using cm_text_three_tiers[of "\<lambda>s. s" default_cm unprefixed_item "''compliance-result''"]
    cm_text_three_tiers[of "\<lambda>s. s" default_cm deep_item "''compliance-result''"]
    cm_text_three_tiers[of "\<lambda>s. s" default_cm deep_item "''compliance-info''"]
  by (simp add: unprefixed_item_def deep_item_def qualified_child_def unqualified_child_def
      qualified_descendant_def qname_def default_cm_def strip_def isspace_def)

text \<open>
  C4. For every list of input files on which \<open>etree.parse\<close> fails or gives a tree
  with proper tags, \<open>main\<close> runs to its end: the records written after the header are
  the rows of the files, file after file in the order of the list, \<open>total_rows\<close> is their
  number and the reported file count is the length of the list. A file that fails to
  parse contributes no row and one diagnostic line; a file that parses contributes the
  rows of its tree and no diagnostic.
\<close>

theorem batch_isolates_parse_failures:
  assumes "list_all (parses_cleanly etree_parse) files"
  shows "main etree_parse unescape files =
           Inr (\<lparr>diagnostics =
                    concat (map (\<lambda>p. fst (parse_nessus_file etree_parse unescape p)) files),
                 records = fieldnames
                    # map (map snd) (concat (map (file_rows etree_parse unescape) files)),
                 total_rows = length (concat (map (file_rows etree_parse unescape) files))\<rparr>,
                length (concat (map (file_rows etree_parse unescape) files)),
                length files)
       \<and> (\<forall>p \<in> set files. \<forall>e. etree_parse p = Inl e \<longrightarrow>
             file_rows etree_parse unescape p = []
             \<and> length (fst (parse_nessus_file etree_parse unescape p)) = 1)
       \<and> (\<forall>p \<in> set files. \<forall>root. etree_parse p = Inr root \<longrightarrow>
             fst (parse_nessus_file etree_parse unescape p) = []
             \<and> rows_of_root unescape root = Inr (file_rows etree_parse unescape p))"
proof -
  have a: "main etree_parse unescape files =
           Inr (\<lparr>diagnostics =
                    concat (map (\<lambda>p. fst (parse_nessus_file etree_parse unescape p)) files),
                 records = fieldnames
                    # map (map snd) (concat (map (file_rows etree_parse unescape) files)),
                 total_rows = length (concat (map (file_rows etree_parse unescape) files))\<rparr>,
                length (concat (map (file_rows etree_parse unescape) files)),
                length files)"
    by (simp add: main_def main_loop_ok[OF assms])
  have b: "\<forall>p \<in> set files. \<forall>e. etree_parse p = Inl e \<longrightarrow>
             file_rows etree_parse unescape p = []
             \<and> length (fst (parse_nessus_file etree_parse unescape p)) = 1"
    by (simp add: file_rows_def parse_nessus_file_def)
  have c: "\<forall>p \<in> set files. \<forall>root. etree_parse p = Inr root \<longrightarrow>
             fst (parse_nessus_file etree_parse unescape p) = []
             \<and> rows_of_root unescape root = Inr (file_rows etree_parse unescape p)"
  proof (intro ballI allI impI)
    fix p root
    assume p: "p \<in> set files" and r: "etree_parse p = Inr root"
    from assms p have "parses_cleanly etree_parse p"
      by (simp add: list_all_iff)
    from parse_nessus_file_ok[OF this, of unescape] r
    show "fst (parse_nessus_file etree_parse unescape p) = []
        \<and> rows_of_root unescape root = Inr (file_rows etree_parse unescape p)"
      by (simp add: parse_nessus_file_def)
  qed
  from a b c show ?thesis by blast
qed

theorem batch_isolates_parse_failures_witness:
  "list_all (parses_cleanly sample_parse) [''a.nessus'', ''broken.nessus'', ''b.nessus'']
   \<and> (\<exists>st. main sample_parse (\<lambda>s. s) [''a.nessus'', ''broken.nessus'', ''b.nessus'']
              = Inr (st, 4, 3)
         \<and> length (records st) = 5
         \<and> diagnostics st =
             [''[!] Failed to parse '' @ [CHR 0x27] @ ''broken.nessus'' @ [CHR 0x27]
                @ '': syntax error: line 1, column 0''])
   \<and> file_rows sample_parse (\<lambda>s. s) ''broken.nessus'' = []"
proof -
  have h: "list_all (parses_cleanly sample_parse) [''a.nessus'', ''broken.nessus'', ''b.nessus'']"
    by (simp add: parses_cleanly_def sample_parse_def sample_tags_nonempty)
  have a: "length (file_rows sample_parse (\<lambda>s. s) ''a.nessus'') = 3"
    by (simp add: file_rows_def parse_nessus_file_def sample_parse_def sample_rows_of_root
        sample_primary_length)
  have b: "length (file_rows sample_parse (\<lambda>s. s) ''b.nessus'') = 1"
    by (simp add: file_rows_def parse_nessus_file_def sample_parse_def sample_rows_of_root
        sample_primary_length)
  have c: "file_rows sample_parse (\<lambda>s. s) ''broken.nessus'' = []"
    by (simp add: file_rows_def parse_nessus_file_def sample_parse_def)
  have d: "concat (map (\<lambda>p. fst (parse_nessus_file sample_parse (\<lambda>s. s) p))
                    [''a.nessus'', ''broken.nessus'', ''b.nessus''])
      = [''[!] Failed to parse '' @ [CHR 0x27] @ ''broken.nessus'' @ [CHR 0x27]
           @ '': syntax error: line 1, column 0'']"
    by (simp add: parse_nessus_file_def sample_parse_def)
  from batch_isolates_parse_failures[OF h, of "\<lambda>s. s"] h a b c d show ?thesis
    by simp
qed

text \<open>
  C5. The severity label is defined for every code: the codes 0 to 4 give Info, Low,
  Medium, High and Critical, every other code that is not empty is its own label, and
  the empty code, which is also what an item without a severity attribute has, gives
  Unknown. The function has no failing branch.
\<close>

theorem severity_text_total:
  "severity_text ''0'' = ''Info'' \<and> severity_text ''1'' = ''Low''
   \<and> severity_text ''2'' = ''Medium'' \<and> severity_text ''3'' = ''High''
   \<and> severity_text ''4'' = ''Critical''
   \<and> (code \<noteq> [] \<and> code \<notin> set [''0'', ''1'', ''2'', ''3'', ''4''] \<longrightarrow> severity_text code = code)
   \<and> severity_text [] = ''Unknown''
   \<and> (get item ''severity'' = None \<longrightarrow> item_severity item = ''Unknown'')
   \<and> (get item ''severity'' = Some code \<longrightarrow> item_severity item = severity_text code)"
  by (simp add: severity_text_def severity_map_def item_severity_def)

theorem severity_text_total_witness:
  "''9'' \<noteq> [] \<and> ''9'' \<notin> set [''0'', ''1'', ''2'', ''3'', ''4''] \<and> severity_text ''9'' = ''9''
   \<and> get (Elem ''ReportItem'' [(''severity'', ''3'')] None []) ''severity'' = Some ''3''
   \<and> item_severity (Elem ''ReportItem'' [(''severity'', ''3'')] None []) = ''High''
   \<and> get (Elem ''ReportItem'' [] None []) ''severity'' = None
   \<and> item_severity (Elem ''ReportItem'' [] None []) = ''Unknown''"
  using severity_text_total[of "''9''" "Elem ''ReportItem'' [] None []"]
    severity_text_total[of "''3''" "Elem ''ReportItem'' [(''severity'', ''3'')] None []"]
  by (simp add: get_def)

text \<open>
  C6, as amended. In the row that the primary path assembles for a report item, the
  field \<open>Is Compliance Item\<close> is \<open>true\<close> exactly when the text of the first
  \<open>compliance\<close> child of the item, with the whitespace at both ends removed, is \<open>true\<close> in
  any mix of upper and lower case; with any other text, or without such a child, it is
  \<open>false\<close>.
\<close>

theorem is_compliance_item_trimmed:
  "map_of (primary_row unescape cm ip item) ''Is Compliance Item'' =
     Some (if lower (strip (or_empty (findtext ''compliance'' item))) = ''true''
           then ''true'' else ''false'')
   \<and> (lower s = ''true'' \<longleftrightarrow>
        (\<exists>a b c d. s = [a, b, c, d]
           \<and> (a = CHR ''t'' \<or> a = CHR ''T'') \<and> (b = CHR ''r'' \<or> b = CHR ''R'')
           \<and> (c = CHR ''u'' \<or> c = CHR ''U'') \<and> (d = CHR ''e'' \<or> d = CHR ''E'')))
   \<and> (findtext ''compliance'' item = None \<longrightarrow>
        map_of (primary_row unescape cm ip item) ''Is Compliance Item'' = Some ''false'')"
  using lower_true[of s]
  by (simp add: primary_row_def Let_def strip_def lower_def)

theorem is_compliance_item_trimmed_witness:
  "map (\<lambda>t. map_of (primary_row (\<lambda>s. s) default_cm ''10.0.0.5'' (compliance_item t))
               ''Is Compliance Item'')
       [''TRUE'', ''true'', ''True'', ''false'', ''yes'']
     = [Some ''true'', Some ''true'', Some ''true'', Some ''false'', Some ''false'']
   \<and> findtext ''compliance'' (Elem ''ReportItem'' [] None []) = None
   \<and> map_of (primary_row (\<lambda>s. s) default_cm ''10.0.0.5'' (Elem ''ReportItem'' [] None []))
        ''Is Compliance Item'' = Some ''false''"
  using is_compliance_item_trimmed[of "\<lambda>s. s" default_cm "''10.0.0.5''" "compliance_item ''TRUE''"]
    is_compliance_item_trimmed[of "\<lambda>s. s" default_cm "''10.0.0.5''" "compliance_item ''true''"]
    is_compliance_item_trimmed[of "\<lambda>s. s" default_cm "''10.0.0.5''" "compliance_item ''True''"]
    is_compliance_item_trimmed[of "\<lambda>s. s" default_cm "''10.0.0.5''" "compliance_item ''false''"]
    is_compliance_item_trimmed[of "\<lambda>s. s" default_cm "''10.0.0.5''" "compliance_item ''yes''"]
    is_compliance_item_trimmed[of "\<lambda>s. s" default_cm "''10.0.0.5''"
      "Elem ''ReportItem'' [] None []"]
  by (simp add: compliance_item_def findtext_def strip_def isspace_def lower_def lower_char_def
      char_of_def bit_Suc_0_iff bit_0)

text \<open>
  C6 as stated fails: the text \<open> true\<close>, with a space in front, is not \<open>true\<close> in any
  case, yet the field is \<open>true\<close>.
\<close>

theorem is_compliance_item_counterexample:
  "findtext ''compliance'' (compliance_item '' true'') = Some '' true''
   \<and> lower '' true'' \<noteq> ''true''
   \<and> map_of (primary_row (\<lambda>s. s) default_cm ''10.0.0.5'' (compliance_item '' true''))
        ''Is Compliance Item'' = Some ''true''"
  by (simp add: primary_row_def Let_def compliance_item_def findtext_def strip_def isspace_def
      lower_def lower_char_def char_of_def bit_Suc_0_iff bit_0)

text \<open>
  C7. The rows of a document are those of the flat fallback exactly when the primary
  traversal yields none. The fallback emits one row per \<open>ReportItem\<close> anywhere in the
  document, the root included, in document order; the row of the i-th item carries the
  name attribute of the i-th \<open>ReportHost\<close> of the document (empty when that host has no
  name), and the empty address when there are fewer hosts. In such a row the base
  fields hold what the item says, the compliance flag is \<open>false\<close> and the eighteen
  compliance fields are empty.
\<close>

theorem flat_fallback:
  "(resolve_cm root = Inr cm \<longrightarrow>
      rows_of_root unescape root =
        Inr (if primary_rows unescape cm root = [] then flat_rows root
             else primary_rows unescape cm root))
   \<and> length (flat_rows root) = length (iter_tag ''ReportItem'' root)
   \<and> (\<forall>i < length (iter_tag ''ReportItem'' root).
        flat_rows root ! i =
          flat_row (if i < length (iter_tag ''ReportHost'' root)
                    then or_empty (get (iter_tag ''ReportHost'' root ! i) ''name'') else [])
                   (iter_tag ''ReportItem'' root ! i))
   \<and> flat_row ip it =
        zip fieldnames
          ([ip, or_empty (get it ''port''), or_empty (get it ''protocol''),
            or_empty (get it ''svc_name''), or_empty (get it ''pluginID''),
            or_empty (or_else (get it ''pluginName'') (findtext ''plugin_name'' it)),
            or_empty (get it ''pluginFamily''), item_severity it,
            strip (or_empty (findtext ''risk_factor'' it)), ''false''] @ replicate 18 [])"
  using flat_rows_length flat_rows_nth flat_row_fields
  by (simp add: rows_of_root_def Let_def)

theorem flat_fallback_witness:
  "resolve_cm flat_doc = Inr default_cm
   \<and> primary_rows (\<lambda>s. s) default_cm flat_doc = []
   \<and> rows_of_root (\<lambda>s. s) flat_doc = Inr (flat_rows flat_doc)
   \<and> length (flat_rows flat_doc) = 2
   \<and> map (\<lambda>r. (map_of r ''IP Address'', map_of r ''Plugin ID'', map_of r ''Severity'',
               map_of r ''Is Compliance Item'', map_of r ''Compliance Result''))
         (flat_rows flat_doc)
       = [(Some ''10.0.0.5'', Some ''1000'', Some ''High'', Some ''false'', Some []),
          (Some [], Some ''1001'', Some ''Unknown'', Some ''false'', Some [])]"
proof -
  have v: "map (\<lambda>r. (map_of r ''IP Address'', map_of r ''Plugin ID'', map_of r ''Severity'',
               map_of r ''Is Compliance Item'', map_of r ''Compliance Result''))
         (flat_rows flat_doc)
       = [(Some ''10.0.0.5'', Some ''1000'', Some ''High'', Some ''false'', Some []),
          (Some [], Some ''1001'', Some ''Unknown'', Some ''false'', Some [])]"
    by (simp add: flat_rows_def flat_doc_def iter_tag_def flat_row_def get_def Let_def
        severity_text_def severity_map_def enumerate_eq_zip upt_rec)
  have l: "length (iter_tag ''ReportItem'' flat_doc) = 2"
    by (simp add: flat_doc_def iter_tag_def)
  from flat_fallback[of flat_doc default_cm "\<lambda>s. s"] sample_resolve_cm(3)
    sample_primary_length(3) v l
  show ?thesis by simp
qed

text \<open>
  C8. Namespace resolution walks all elements of the document in document order. When
  some namespaced tag has a URI that contains \<open>nessus.org/cm\<close> or \<open>compliance\<close>, the
  namespace of the document is such a URI, the one of the last such tag; when no tag
  has one, it is \<open>http://www.nessus.org/cm\<close>.
\<close>

theorem resolve_cm_last:
  assumes "tags_nonempty root"
  shows "resolve_cm root =
           Inr (if cm_uris (iter root) = [] then default_cm else last (cm_uris (iter root)))
       \<and> (cm_uris (iter root) \<noteq> [] \<longrightarrow> resolve_cm root \<in> Inr ` set (cm_uris (iter root)))
       \<and> default_cm = ''http://www.nessus.org/cm''
       \<and> (is_cm_uri uri \<longleftrightarrow> sublist ''nessus.org/cm'' uri \<or> sublist ''compliance'' uri)"
  using assms
  by (simp add: resolve_cm_def tags_nonempty_def detect_cm_last default_cm_def is_cm_uri_def
      contains_sublist)

theorem resolve_cm_last_witness:
  "tags_nonempty ns_doc
   \<and> cm_uris (iter ns_doc) = [''http://www.nessus.org/cm'', ''urn:compliance:v2'']
   \<and> resolve_cm ns_doc = Inr ''urn:compliance:v2''
   \<and> tags_nonempty two_hosts_doc \<and> cm_uris (iter two_hosts_doc) = []
   \<and> resolve_cm two_hosts_doc = Inr ''http://www.nessus.org/cm''"
proof -
  have t1: "tags_nonempty ns_doc"
    by (simp add: ns_doc_def tags_nonempty_def)
  have u1: "cm_uris (iter ns_doc) = [''http://www.nessus.org/cm'', ''urn:compliance:v2'']"
    by (simp add: ns_doc_def cm_uris_def tag_uri_def is_cm_uri_def)
  have r1: "resolve_cm ns_doc = Inr ''urn:compliance:v2''"
    using resolve_cm_last[OF t1, of "[]", THEN conjunct1] by (simp add: u1)
  have u2: "cm_uris (iter two_hosts_doc) = []"
    by (simp add: two_hosts_doc_def cm_uris_def tag_uri_def)
  have r2: "resolve_cm two_hosts_doc = Inr ''http://www.nessus.org/cm''"
    using resolve_cm_last[OF sample_tags_nonempty(2), of "[]", THEN conjunct1]
    by (simp add: u2 default_cm_def)
  from t1 u1 r1 sample_tags_nonempty(2) u2 r2 show ?thesis
    by simp
qed

text \<open>
  C9, as amended. The address of a host is its name attribute when that is present and
  not empty; otherwise it is the text of the first descendant \<open>tag\<close> element whose name
  attribute is \<open>host-ip\<close> and whose text is not empty; when there is no such element it
  is the empty string. The function has no failing branch.
\<close>

theorem host_ip_first_nonempty:
  "host_ip host =
     (if truthy (get host ''name'') then or_empty (get host ''name'')
      else (case find (\<lambda>t. get t ''name'' = Some ''host-ip'' \<and> truthy (elem_text t))
                  (findall_desc ''tag'' host) of
              None \<Rightarrow> []
            | Some t \<Rightarrow> or_empty (elem_text t)))"
  by (cases "get host ''name''") (auto simp: host_ip_def host_ip_loop_find Let_def)

theorem host_ip_first_nonempty_witness:
  "host_ip (Elem ''ReportHost'' [(''name'', ''10.0.0.5'')] None []) = ''10.0.0.5''
   \<and> host_ip tagged_host = ''10.0.0.7''
   \<and> host_ip (Elem ''ReportHost'' [] None []) = []"
  using host_ip_first_nonempty[of "Elem ''ReportHost'' [(''name'', ''10.0.0.5'')] None []"]
    host_ip_first_nonempty[of tagged_host]
    host_ip_first_nonempty[of "Elem ''ReportHost'' [] None []"]
  by (simp add: tagged_host_def get_def findall_desc_def)

text \<open>
  C9 as stated fails: the first \<open>host-ip\<close> tag of this host has no text, so the address
  as the claim words it is empty, and the code goes on to the second tag.
\<close>

theorem host_ip_counterexample:
  "host_ip two_tags_host = ''10.0.0.1'' \<and> claimed_host_address two_tags_host = []"
  by (simp add: two_tags_host_def host_ip_def claimed_host_address_def findall_desc_def get_def)

text \<open>
  C10. When the item has a namespace-qualified direct child for the field and the text
  of the first such child is absent, empty or only whitespace, the extractor returns the
  empty string, whatever the other children and descendants of the item hold; the other
  two lookups are not consulted. (\<open>html.unescape\<close> maps the empty string to itself.)
\<close>

theorem cm_text_qualified_child_blank:
  assumes "find (\<lambda>c. tag c = qname cm field) (children item) = Some c"
    and "strip (or_empty (elem_text c)) = []"
    and "unescape [] = []"
  shows "cm_text unescape cm item field = []"
proof -
  have "findtext (qname cm field) item = Some (or_empty (elem_text c))"
    using assms(1) by (simp add: findtext_child)
  then show ?thesis
    using assms(2,3) by (simp add: cm_text_def)
qed

theorem cm_text_qualified_child_blank_witness:
  "find (\<lambda>c. tag c = qname default_cm ''compliance-result'') (children blank_item)
      = Some (Elem ''{http://www.nessus.org/cm}compliance-result'' [] (Some ''  '') [])
   \<and> strip (or_empty (elem_text
        (Elem ''{http://www.nessus.org/cm}compliance-result'' [] (Some ''  '') []))) = []
   \<and> unqualified_child blank_item ''compliance-result'' = Some ''PASSED''
   \<and> qualified_descendant default_cm blank_item ''compliance-result'' = Some ''FAILED''
   \<and> cm_text (\<lambda>s. s) default_cm blank_item ''compliance-result'' = []"
  using cm_text_qualified_child_blank[of default_cm "''compliance-result''" blank_item
      "Elem ''{http://www.nessus.org/cm}compliance-result'' [] (Some ''  '') []" "\<lambda>s. s"]
  by (simp add: blank_item_def qname_def default_cm_def strip_def isspace_def
      unqualified_child_def qualified_descendant_def)

end
